theory Spec2Isabelle
  imports Main "HOL-Library.AList"
begin

section \<open>Python values, exceptions and effects\<close>

text \<open>
  Every exception the service or one of its libraries can raise is a value. A function
  with effects takes the state it works on and returns its outcome (\<open>Inl\<close> an exception,
  \<open>Inr\<close> the returned value) with the state it leaves behind: what a call did before it
  raised stays done.
\<close>

datatype error =
    HTTPException nat string
  | ConnectionError
  | ResponseError string
  | JSONDecodeError
  | KeyError string
  | TypeError
  | AttributeError
  | ValueError
  | NameError string
  | IntegrityError
  | MultipleResultsFound

type_synonym ('s, 'a) io = "'s \<Rightarrow> (error + 'a) \<times> 's"

definition return :: "'a \<Rightarrow> ('s, 'a) io" where
  "return a s = (Inr a, s)"

definition raise :: "error \<Rightarrow> ('s, 'a) io" where
  "raise e s = (Inl e, s)"

definition and_then :: "('s, 'a) io \<Rightarrow> ('a \<Rightarrow> ('s, 'b) io) \<Rightarrow> ('s, 'b) io" where
  "and_then m f s = (case m s of (Inl e, s') \<Rightarrow> (Inl e, s') | (Inr a, s') \<Rightarrow> f a s')"

text \<open>\<open>try: m except Exception as e: h e\<close>; every exception of the model is an \<open>Exception\<close>.\<close>

definition try_except :: "('s, 'a) io \<Rightarrow> (error \<Rightarrow> ('s, 'a) io) \<Rightarrow> ('s, 'a) io" where
  "try_except m h s = (case m s of (Inl e, s') \<Rightarrow> h e s' | (Inr a, s') \<Rightarrow> (Inr a, s'))"

subsection \<open>\<open>str\<close> and \<open>int\<close> on decimal numerals\<close>

definition digit_char :: "nat \<Rightarrow> char" where
  "digit_char d = ''0123456789abcdef'' ! (d mod 16)"

fun str_nat :: "nat \<Rightarrow> string" where
  "str_nat n = (if n < 10 then [digit_char n] else str_nat (n div 10) @ [digit_char (n mod 10)])"

declare str_nat.simps [simp del]

text \<open>Python's \<open>str\<close> on an \<open>int\<close>.\<close>

definition str_int :: "int \<Rightarrow> string" where
  "str_int i = (if i < 0 then CHR ''-'' # str_nat (nat (- i)) else str_nat (nat i))"

definition is_digit :: "char \<Rightarrow> bool" where
  "is_digit c = (48 \<le> (of_char c :: nat) \<and> (of_char c :: nat) \<le> 57)"

definition digit_val :: "char \<Rightarrow> nat option" where
  "digit_val c = (if is_digit c then Some (of_char c - 48) else None)"

fun nat_of_digits :: "nat \<Rightarrow> string \<Rightarrow> nat option" where
  "nat_of_digits acc [] = Some acc"
| "nat_of_digits acc (c # cs) =
     (case digit_val c of None \<Rightarrow> None | Some d \<Rightarrow> nat_of_digits (10 * acc + d) cs)"

text \<open>
  The integer a Redis string value stands for: a decimal numeral in canonical form (no
  sign but \<open>-\<close>, no leading zero, no blank), as \<open>INCR\<close> reads it.
\<close>

definition int_of_string :: "string \<Rightarrow> int option" where
  "int_of_string s =
     (case (case s of
              [] \<Rightarrow> None
            | c # cs \<Rightarrow>
                if c = CHR ''-'' then
                  (if cs = [] then None else map_option (\<lambda>n. - int n) (nat_of_digits 0 cs))
                else map_option int (nat_of_digits 0 s)) of
        None \<Rightarrow> None
      | Some i \<Rightarrow> if str_int i = s then Some i else None)"

subsection \<open>\<open>datetime\<close>\<close>

text \<open>
  A \<open>datetime\<close> is the reading of a wall clock, counted in microseconds from
  1970-01-01T00:00:00 on that clock, and the offset of the clock from UTC in seconds;
  \<open>tzinfo = None\<close> is a naive reading. The calendar is the proleptic Gregorian one of
  Python's \<open>datetime\<close> module, whose conversions the functions below follow; the years
  1 to 9999 that Python is confined to are not enforced.
\<close>

record datetime =
  wall :: int
  tzinfo :: "int option"

definition usec_per_day :: int where
  "usec_per_day = 86400000000"

definition epoch_ordinal :: int where
  "epoch_ordinal = 719163"

definition is_leap :: "int \<Rightarrow> bool" where
  "is_leap year = (year mod 4 = 0 \<and> (year mod 100 \<noteq> 0 \<or> year mod 400 = 0))"

definition days_before_year :: "int \<Rightarrow> int" where
  "days_before_year year = (let y = year - 1 in y * 365 + y div 4 - y div 100 + y div 400)"

definition days_in_month :: "int \<Rightarrow> int \<Rightarrow> int" where
  "days_in_month year month =
     (if month = 2 then (if is_leap year then 29 else 28)
      else if month \<in> {4, 6, 9, 11} then 30 else 31)"

definition days_before_month :: "int \<Rightarrow> int \<Rightarrow> int" where
  "days_before_month year month =
     [0, 31, 59, 90, 120, 151, 181, 212, 243, 273, 304, 334] ! nat (month - 1)
     + (if month > 2 \<and> is_leap year then 1 else 0)"

definition ymd2ord :: "int \<Rightarrow> int \<Rightarrow> int \<Rightarrow> int" where
  "ymd2ord year month day = days_before_year year + days_before_month year month + day"

definition ord2ymd :: "int \<Rightarrow> int \<times> int \<times> int" where
  "ord2ymd ordinal =
     (let n = ordinal - 1;
          n400 = n div 146097; n = n mod 146097;
          n100 = n div 36524; n = n mod 36524;
          n4 = n div 1461; n = n mod 1461;
          n1 = n div 365; n = n mod 365;
          year = n400 * 400 + 1 + n100 * 100 + n4 * 4 + n1
      in if n1 = 4 \<or> n100 = 4 then (year - 1, 12, 31)
         else
           (let month = (n + 50) div 32;
                preceding = days_before_month year month
            in if preceding > n then
                 (year, month - 1, n - (preceding - days_in_month year (month - 1)) + 1)
               else (year, month, n - preceding + 1)))"

definition pad :: "nat \<Rightarrow> int \<Rightarrow> string" where
  "pad w i = (let s = str_nat (nat i) in replicate (w - length s) CHR ''0'' @ s)"

definition format_offset :: "int \<Rightarrow> string" where
  "format_offset off =
     (let a = \<bar>off\<bar> in
      (if off < 0 then ''-'' else ''+'') @ pad 2 (a div 3600) @ '':'' @ pad 2 (a mod 3600 div 60)
      @ (if a mod 60 = 0 then [] else '':'' @ pad 2 (a mod 60)))"

text \<open>\<open>datetime.isoformat()\<close>: \<open>YYYY-MM-DDTHH:MM:SS[.ffffff][+HH:MM[:SS]]\<close>.\<close>

definition isoformat :: "datetime \<Rightarrow> string" where
  "isoformat d =
     (let (year, month, day) = ord2ymd (wall d div usec_per_day + epoch_ordinal);
          t = wall d mod usec_per_day;
          us = t mod 1000000; s = t div 1000000
      in pad 4 year @ ''-'' @ pad 2 month @ ''-'' @ pad 2 day @ ''T''
         @ pad 2 (s div 3600) @ '':'' @ pad 2 (s mod 3600 div 60) @ '':'' @ pad 2 (s mod 60)
         @ (if us = 0 then [] else ''.'' @ pad 6 us)
         @ (case tzinfo d of None \<Rightarrow> [] | Some off \<Rightarrow> format_offset off))"

definition digits_at :: "string \<Rightarrow> nat \<Rightarrow> nat \<Rightarrow> int option" where
  "digits_at s i w =
     (if length s < i + w then None else map_option int (nat_of_digits 0 (take w (drop i s))))"

definition parse_offset :: "string \<Rightarrow> int option option" where
  "parse_offset s =
     (if s = [] then Some None
      else if hd s \<notin> {CHR ''+'', CHR ''-''} then None
      else if length s = 6 \<and> s ! 3 = CHR '':'' then
        (case (digits_at s 1 2, digits_at s 4 2) of
           (Some h, Some m) \<Rightarrow>
             Some (Some ((if hd s = CHR ''-'' then - 1 else 1) * (h * 3600 + m * 60)))
         | _ \<Rightarrow> None)
      else if length s = 9 \<and> s ! 3 = CHR '':'' \<and> s ! 6 = CHR '':'' then
        (case (digits_at s 1 2, digits_at s 4 2, digits_at s 7 2) of
           (Some h, Some m, Some sec) \<Rightarrow>
             Some (Some ((if hd s = CHR ''-'' then - 1 else 1) * (h * 3600 + m * 60 + sec)))
         | _ \<Rightarrow> None)
      else None)"

text \<open>
  \<open>datetime.fromisoformat\<close> on the strings that \<open>isoformat\<close> writes (any character may
  stand for the \<open>T\<close>); everything else is answered with \<open>ValueError\<close>. Python from 3.11
  on reads further ISO 8601 forms, which are not modelled: the service stores only what
  \<open>isoformat\<close> wrote.
\<close>

definition fromisoformat :: "string \<Rightarrow> error + datetime" where
  "fromisoformat s =
     (if length s < 19 \<or> s ! 4 \<noteq> CHR ''-'' \<or> s ! 7 \<noteq> CHR ''-''
         \<or> s ! 13 \<noteq> CHR '':'' \<or> s ! 16 \<noteq> CHR '':''
      then Inl ValueError
      else
        (let rest = drop 19 s;
             frac = (if rest \<noteq> [] \<and> hd rest = CHR ''.'' then digits_at rest 1 6 else Some 0);
             tz = parse_offset (if rest \<noteq> [] \<and> hd rest = CHR ''.'' then drop 7 rest else rest)
         in case (digits_at s 0 4, digits_at s 5 2, digits_at s 8 2,
                  digits_at s 11 2, digits_at s 14 2, digits_at s 17 2, frac, tz) of
              (Some year, Some month, Some day, Some h, Some m, Some sec, Some us, Some off) \<Rightarrow>
                if 1 \<le> year \<and> 1 \<le> month \<and> month \<le> 12
                   \<and> 1 \<le> day \<and> day \<le> days_in_month year month
                   \<and> h < 24 \<and> m < 60 \<and> sec < 60
                   \<and> (case off of None \<Rightarrow> True | Some o' \<Rightarrow> \<bar>o'\<bar> < 86400)
                then Inr \<lparr>wall = (ymd2ord year month day - epoch_ordinal) * usec_per_day
                                  + (h * 3600 + m * 60 + sec) * 1000000 + us,
                          tzinfo = off\<rparr>
                else Inl ValueError
            | _ \<Rightarrow> Inl ValueError))"

text \<open>
  \<open>a < b\<close> on datetimes: two aware readings are compared as instants, two naive ones as
  they stand, and a naive one cannot be compared with an aware one.
\<close>

definition datetime_less :: "datetime \<Rightarrow> datetime \<Rightarrow> error + bool" where
  "datetime_less a b =
     (case (tzinfo a, tzinfo b) of
        (None, None) \<Rightarrow> Inr (wall a < wall b)
      | (Some oa, Some ob) \<Rightarrow> Inr (wall a - oa * 1000000 < wall b - ob * 1000000)
      | _ \<Rightarrow> Inl TypeError)"

subsection \<open>Dynamically typed values\<close>

text \<open>
  The values a variable of the service can hold: what \<open>json.loads\<close> returns, and the
  datetimes of the database rows. Floating-point numbers are left out.
\<close>

datatype pyval =
    PNone
  | PBool bool
  | PInt int
  | PStr string
  | PList "pyval list"
  | PDict "(string \<times> pyval) list"
  | PDatetime datetime

text \<open>The truth value of \<open>if v:\<close>.\<close>

fun truthy :: "pyval \<Rightarrow> bool" where
  "truthy PNone = False"
| "truthy (PBool b) = b"
| "truthy (PInt i) = (i \<noteq> 0)"
| "truthy (PStr s) = (s \<noteq> [])"
| "truthy (PList xs) = (xs \<noteq> [])"
| "truthy (PDict kvs) = (kvs \<noteq> [])"
| "truthy (PDatetime d) = True"

text \<open>\<open>v[key]\<close> with a string key: only a dict can be indexed by one.\<close>

fun getitem :: "pyval \<Rightarrow> string \<Rightarrow> error + pyval" where
  "getitem (PDict kvs) key = (case map_of kvs key of None \<Rightarrow> Inl (KeyError key) | Some v \<Rightarrow> Inr v)"
| "getitem v key = Inl TypeError"

text \<open>\<open>v.get(key)\<close>: a method of dicts only.\<close>

fun dict_get :: "pyval \<Rightarrow> string \<Rightarrow> error + pyval" where
  "dict_get (PDict kvs) key = (case map_of kvs key of None \<Rightarrow> Inr PNone | Some v \<Rightarrow> Inr v)"
| "dict_get v key = Inl AttributeError"

subsection \<open>\<open>json.dumps\<close> and \<open>json.loads\<close>\<close>

text \<open>
  The encoder with its default settings: a comma and a colon, each followed by a blank,
  as separators, and every character outside the printable ASCII range escaped. A character of the model is a code
  point below 256.
\<close>

definition escape_char :: "char \<Rightarrow> string" where
  "escape_char c =
     (let n = (of_char c :: nat) in
      if n = 34 then [CHR 0x5C, CHR 0x22]
      else if n = 92 then [CHR 0x5C, CHR 0x5C]
      else if n = 10 then [CHR 0x5C, CHR ''n'']
      else if n = 13 then [CHR 0x5C, CHR ''r'']
      else if n = 9 then [CHR 0x5C, CHR ''t'']
      else if n = 8 then [CHR 0x5C, CHR ''b'']
      else if n = 12 then [CHR 0x5C, CHR ''f'']
      else if 32 \<le> n \<and> n \<le> 126 then [c]
      else [CHR 0x5C, CHR ''u'', CHR ''0'', CHR ''0'', digit_char (n div 16), digit_char (n mod 16)])"

definition dumps_str :: "string \<Rightarrow> string" where
  "dumps_str s = CHR 0x22 # concat (map escape_char s) @ [CHR 0x22]"

fun join :: "string \<Rightarrow> string list \<Rightarrow> string" where
  "join sep [] = []"
| "join sep [x] = x"
| "join sep (x # y # ys) = x @ sep @ join sep (y # ys)"

fun serializable :: "pyval \<Rightarrow> bool" where
  "serializable (PDatetime d) = False"
| "serializable (PList xs) = list_all serializable xs"
| "serializable (PDict kvs) = list_all (\<lambda>kv. serializable (snd kv)) kvs"
| "serializable v = True"

fun dumps_text :: "pyval \<Rightarrow> string" where
  "dumps_text PNone = ''null''"
| "dumps_text (PBool b) = (if b then ''true'' else ''false'')"
| "dumps_text (PInt i) = str_int i"
| "dumps_text (PStr s) = dumps_str s"
| "dumps_text (PList xs) = ''['' @ join '', '' (map dumps_text xs) @ '']''"
| "dumps_text (PDict kvs) =
     ''{'' @ join '', '' (map (\<lambda>kv. dumps_str (fst kv) @ '': '' @ dumps_text (snd kv)) kvs) @ ''}''"
| "dumps_text (PDatetime d) = []"

definition json_dumps :: "pyval \<Rightarrow> error + string" where
  "json_dumps v = (if serializable v then Inr (dumps_text v) else Inl TypeError)"

text \<open>
  The decoder, by recursive descent as Python's scanner goes: blanks between tokens, the
  literals, integers, strings with their escapes, arrays, and objects in which a repeated
  key keeps its last value. Two parts of JSON are not modelled and are answered with
  \<open>JSONDecodeError\<close>: numbers with a fraction or an exponent (and \<open>NaN\<close>, \<open>Infinity\<close>), and
  the four-digit hexadecimal escapes of code points from 256 on. The first argument of the three parsers
  bounds the depth of the descent; \<open>json_loads\<close> passes more than any text needs.
\<close>

definition is_ws :: "char \<Rightarrow> bool" where
  "is_ws c = ((of_char c :: nat) \<in> {32, 9, 10, 13})"

fun skip_ws :: "string \<Rightarrow> string" where
  "skip_ws [] = []"
| "skip_ws (c # cs) = (if is_ws c then skip_ws cs else c # cs)"

definition hex_val :: "char \<Rightarrow> nat option" where
  "hex_val c =
     (let n = (of_char c :: nat) in
      if 48 \<le> n \<and> n \<le> 57 then Some (n - 48)
      else if 97 \<le> n \<and> n \<le> 102 then Some (n - 87)
      else if 65 \<le> n \<and> n \<le> 70 then Some (n - 55)
      else None)"

fun scan_string :: "string \<Rightarrow> string \<Rightarrow> (string \<times> string) option" where
  "scan_string acc [] = None"
| "scan_string acc (c # cs) =
     (if c = CHR 0x22 then Some (rev acc, cs)
      else if c = CHR 0x5C then
        (case cs of
           [] \<Rightarrow> None
         | e # cs' \<Rightarrow>
             if e = CHR 0x22 \<or> e = CHR 0x5C \<or> e = CHR ''/'' then scan_string (e # acc) cs'
             else if e = CHR ''b'' then scan_string (CHR 0x08 # acc) cs'
             else if e = CHR ''f'' then scan_string (CHR 0x0C # acc) cs'
             else if e = CHR ''n'' then scan_string (CHR 0x0A # acc) cs'
             else if e = CHR ''r'' then scan_string (CHR 0x0D # acc) cs'
             else if e = CHR ''t'' then scan_string (CHR 0x09 # acc) cs'
             else if e = CHR ''u'' then
               (case cs' of
                  h1 # h2 # h3 # h4 # rest \<Rightarrow>
                    (case (hex_val h1, hex_val h2, hex_val h3, hex_val h4) of
                       (Some a, Some b, Some c', Some d) \<Rightarrow>
                         if a = 0 \<and> b = 0 then scan_string (char_of (16 * c' + d) # acc) rest
                         else None
                     | _ \<Rightarrow> None)
                | _ \<Rightarrow> None)
             else None)
      else if (of_char c :: nat) < 32 then None
      else scan_string (c # acc) cs)"

definition scan_number :: "string \<Rightarrow> (pyval \<times> string) option" where
  "scan_number s =
     (let neg = (s \<noteq> [] \<and> hd s = CHR ''-'');
          s1 = (if neg then tl s else s);
          ds = (if s1 \<noteq> [] \<and> hd s1 = CHR ''0'' then ''0'' else takeWhile is_digit s1);
          rest = drop (length ds) s1
      in if ds = [] then None
         else if rest \<noteq> [] \<and> hd rest \<in> {CHR ''.'', CHR ''e'', CHR ''E''} then None
         else map_option (\<lambda>n. (PInt (if neg then - int n else int n), rest)) (nat_of_digits 0 ds))"

fun parse_value :: "string \<Rightarrow> string \<Rightarrow> (pyval \<times> string) option"
and parse_elements :: "string \<Rightarrow> pyval list \<Rightarrow> string \<Rightarrow> (pyval \<times> string) option"
and parse_members :: "string \<Rightarrow> (string \<times> pyval) list \<Rightarrow> string \<Rightarrow> (pyval \<times> string) option"
where
  "parse_value [] s = None"
| "parse_value (f # fuel) s =
     (case s of
        [] \<Rightarrow> None
      | c # cs \<Rightarrow>
          if c = CHR 0x22 then map_option (\<lambda>(t, rest). (PStr t, rest)) (scan_string [] cs)
          else if c = CHR ''{'' then
            (case skip_ws cs of
               [] \<Rightarrow> None
             | d # ds \<Rightarrow>
                 if d = CHR ''}'' then Some (PDict [], ds) else parse_members fuel [] (d # ds))
          else if c = CHR ''['' then
            (case skip_ws cs of
               [] \<Rightarrow> None
             | d # ds \<Rightarrow>
                 if d = CHR '']'' then Some (PList [], ds) else parse_elements fuel [] (d # ds))
          else if take 4 s = ''null'' then Some (PNone, drop 4 s)
          else if take 4 s = ''true'' then Some (PBool True, drop 4 s)
          else if take 5 s = ''false'' then Some (PBool False, drop 5 s)
          else scan_number s)"
| "parse_elements [] acc s = None"
| "parse_elements (f # fuel) acc s =
     (case parse_value fuel s of
        None \<Rightarrow> None
      | Some (v, rest) \<Rightarrow>
          (case skip_ws rest of
             [] \<Rightarrow> None
           | d # ds \<Rightarrow>
               if d = CHR '','' then parse_elements fuel (acc @ [v]) (skip_ws ds)
               else if d = CHR '']'' then Some (PList (acc @ [v]), ds)
               else None))"
| "parse_members [] acc s = None"
| "parse_members (f # fuel) acc s =
     (case s of
        [] \<Rightarrow> None
      | c # cs \<Rightarrow>
          if c \<noteq> CHR 0x22 then None
          else
            (case scan_string [] cs of
               None \<Rightarrow> None
             | Some (k, rest) \<Rightarrow>
                 (case skip_ws rest of
                    [] \<Rightarrow> None
                  | d # ds \<Rightarrow>
                      if d \<noteq> CHR '':'' then None
                      else
                        (case parse_value fuel (skip_ws ds) of
                           None \<Rightarrow> None
                         | Some (v, rest') \<Rightarrow>
                             (case skip_ws rest' of
                                [] \<Rightarrow> None
                              | e # es \<Rightarrow>
                                  if e = CHR '','' then
                                    parse_members fuel (AList.update k v acc) (skip_ws es)
                                  else if e = CHR ''}'' then
                                    Some (PDict (AList.update k v acc), es)
                                  else None)))))"

definition json_loads :: "string \<Rightarrow> error + pyval" where
  "json_loads s =
     (case parse_value (CHR ''.'' # s @ s) (skip_ws s) of
        None \<Rightarrow> Inl JSONDecodeError
      | Some (v, rest) \<Rightarrow> if skip_ws rest = [] then Inr v else Inl JSONDecodeError)"

section \<open>The cache backend\<close>

text \<open>
  The state of the Redis server behind \<open>redis_client\<close>: one keyspace whose values are
  strings or sorted sets (members with their scores), each with the time at which it
  expires when it has one, the server's clock in seconds, and \<open>faults\<close>, the fate of the
  coming commands: a command whose turn reads \<open>True\<close> fails with a connection error and
  reaches no data; when the list is used up every command goes through.
\<close>

datatype rvalue = RString string | RZSet "(string \<times> int) list"

record redis =
  store :: "string \<rightharpoonup> rvalue \<times> int option"
  clock :: int
  faults :: "bool list"

definition lookup :: "redis \<Rightarrow> string \<Rightarrow> (rvalue \<times> int option) option" where
  "lookup r k =
     (case store r k of
        None \<Rightarrow> None
      | Some (v, None) \<Rightarrow> Some (v, None)
      | Some (v, Some t) \<Rightarrow> if t \<le> clock r then None else Some (v, Some t))"

text \<open>
  An \<open>async def\<close> called without \<open>await\<close> only builds a coroutine object; its body runs
  when the coroutine is awaited, and never when the object is dropped.
\<close>

datatype 'a coroutine = Coroutine "(redis, 'a) io"

fun await :: "'a coroutine \<Rightarrow> (redis, 'a) io" where
  "await (Coroutine m) = m"

definition command :: "(redis, 'a) io \<Rightarrow> 'a coroutine" where
  "command m = Coroutine (\<lambda>r.
     case faults r of
       [] \<Rightarrow> m r
     | True # fs \<Rightarrow> (Inl ConnectionError, r\<lparr>faults := fs\<rparr>)
     | False # fs \<Rightarrow> m (r\<lparr>faults := fs\<rparr>))"

definition wrongtype :: error where
  "wrongtype = ResponseError ''WRONGTYPE Operation against a key holding the wrong kind of value''"

subsection \<open>\<open>RedisCache\<close>: the key-value store adapter (\<open>app/redis_cache.py\<close>)\<close>

definition set_key :: "string \<Rightarrow> string \<Rightarrow> int option \<Rightarrow> unit coroutine" where
  "set_key key v expire_opt = command (\<lambda>r.
     case expire_opt of
       None \<Rightarrow> (Inr (), r\<lparr>store := (store r)(key \<mapsto> (RString v, None))\<rparr>)
     | Some ex \<Rightarrow>
         if ex \<le> 0 then (Inl (ResponseError ''invalid expire time in set''), r)
         else (Inr (), r\<lparr>store := (store r)(key \<mapsto> (RString v, Some (clock r + ex)))\<rparr>))"

definition get_key :: "string \<Rightarrow> string option coroutine" where
  "get_key key = command (\<lambda>r.
     case lookup r key of
       None \<Rightarrow> (Inr None, r)
     | Some (RString v, _) \<Rightarrow> (Inr (Some v), r)
     | Some (RZSet _, _) \<Rightarrow> (Inl wrongtype, r))"

definition delete_key :: "string \<Rightarrow> unit coroutine" where
  "delete_key key = command (\<lambda>r. (Inr (), r\<lparr>store := (store r)(key := None)\<rparr>))"

definition increment_key :: "string \<Rightarrow> int coroutine" where
  "increment_key key = command (\<lambda>r.
     case lookup r key of
       None \<Rightarrow> (Inr 1, r\<lparr>store := (store r)(key \<mapsto> (RString (str_int 1), None))\<rparr>)
     | Some (RZSet _, _) \<Rightarrow> (Inl wrongtype, r)
     | Some (RString v, ex) \<Rightarrow>
         (case int_of_string v of
            None \<Rightarrow> (Inl (ResponseError ''value is not an integer or out of range''), r)
          | Some n \<Rightarrow>
              if n < - (2 ^ 63) \<or> 2 ^ 63 - 1 < n then
                (Inl (ResponseError ''value is not an integer or out of range''), r)
              else if n = 2 ^ 63 - 1 then
                (Inl (ResponseError ''increment or decrement would overflow''), r)
              else (Inr (n + 1), r\<lparr>store := (store r)(key \<mapsto> (RString (str_int (n + 1)), ex))\<rparr>)))"

text \<open>The members of a sorted set, missing (or expired) keys reading as the empty set.\<close>

definition zset_of :: "redis \<Rightarrow> string \<Rightarrow> error + (string \<times> int) list \<times> int option" where
  "zset_of r key =
     (case lookup r key of
        None \<Rightarrow> Inr ([], None)
      | Some (RZSet z, ex) \<Rightarrow> Inr (z, ex)
      | Some (RString _, _) \<Rightarrow> Inl wrongtype)"

text \<open>Redis keeps no empty sorted set: the key goes with its last member.\<close>

definition put_zset :: "redis \<Rightarrow> string \<Rightarrow> (string \<times> int) list \<Rightarrow> int option \<Rightarrow> redis" where
  "put_zset r key z ex =
     (if z = [] then r\<lparr>store := (store r)(key := None)\<rparr>
      else r\<lparr>store := (store r)(key \<mapsto> (RZSet z, ex))\<rparr>)"

definition zadd :: "string \<Rightarrow> (string \<times> int) list \<Rightarrow> unit coroutine" where
  "zadd key mapping = command (\<lambda>r.
     case zset_of r key of
       Inl e \<Rightarrow> (Inl e, r)
     | Inr (z, ex) \<Rightarrow>
         (Inr (), put_zset r key (foldl (\<lambda>z' (m, sc). AList.update m sc z') z mapping) ex))"

text \<open>\<open>ZREMRANGEBYSCORE key min max\<close> removes the members with \<open>min \<le> score \<le> max\<close>.\<close>

definition zremrangebyscore :: "string \<Rightarrow> int \<Rightarrow> int \<Rightarrow> unit coroutine" where
  "zremrangebyscore key min_score max_score = command (\<lambda>r.
     case zset_of r key of
       Inl e \<Rightarrow> (Inl e, r)
     | Inr (z, ex) \<Rightarrow>
         (Inr (), put_zset r key
            (filter (\<lambda>(m, sc). \<not> (min_score \<le> sc \<and> sc \<le> max_score)) z) ex))"

definition zcard :: "string \<Rightarrow> int coroutine" where
  "zcard key = command (\<lambda>r.
     case zset_of r key of
       Inl e \<Rightarrow> (Inl e, r)
     | Inr (z, ex) \<Rightarrow> (Inr (int (length z)), r))"

definition expire :: "string \<Rightarrow> int \<Rightarrow> unit coroutine" where
  "expire key time = command (\<lambda>r.
     case lookup r key of
       None \<Rightarrow> (Inr (), r)
     | Some (v, _) \<Rightarrow>
         if time \<le> 0 then (Inr (), r\<lparr>store := (store r)(key := None)\<rparr>)
         else (Inr (), r\<lparr>store := (store r)(key \<mapsto> (v, Some (clock r + time)))\<rparr>))"

section \<open>The rate limiter (\<open>app/services/rate_limiter.py\<close>)\<close>

record RateLimiter =
  requests :: int
  window :: int

text \<open>The global instance \<open>rate_limiter = RateLimiter()\<close>: 100 requests per hour.\<close>

definition rate_limiter :: RateLimiter where
  "rate_limiter = \<lparr>requests = 100, window = 3600\<rparr>"

definition rate_limit_key :: "string \<Rightarrow> string \<Rightarrow> string" where
  "rate_limit_key ip endpoint = ''rate_limit:'' @ ip @ '':'' @ endpoint"

text \<open>
  The body of the \<open>try\<close> of \<open>check_rate_limit\<close>; \<open>current\<close> is \<open>int(time.time())\<close>, the
  reading of the clock in whole seconds.
\<close>

definition check_rate_limit_body :: "RateLimiter \<Rightarrow> string \<Rightarrow> int \<Rightarrow> (redis, unit) io" where
  "check_rate_limit_body self key current =
     (let window_start = current - window self in
      and_then (await (zremrangebyscore key 0 window_start)) (\<lambda>_.
      and_then (await (zcard key)) (\<lambda>request_count.
        if request_count \<ge> requests self then
          raise (HTTPException 429 ''Rate limit exceeded'')
        else
          and_then (await (zadd key [(str_int current, current)])) (\<lambda>_.
          await (expire key (window self))))))"

text \<open>
  The handler \<open>except Exception as e\<close> prints and falls through: whatever the body
  raised, the check returns.
\<close>

definition check_rate_limit :: "RateLimiter \<Rightarrow> string \<Rightarrow> string \<Rightarrow> int \<Rightarrow> (redis, unit) io" where
  "check_rate_limit self ip endpoint current =
     try_except (check_rate_limit_body self (rate_limit_key ip endpoint) current)
       (\<lambda>e. return ())"
section \<open>The cache service (\<open>app/services/cache_service.py\<close>)\<close>

definition CACHE_TTL :: int where
  "CACHE_TTL = 3600"

definition generate_url_key :: "string \<Rightarrow> string" where
  "generate_url_key short_code = ''url:'' @ short_code"

definition generate_analytics_key :: "string \<Rightarrow> string" where
  "generate_analytics_key short_code = ''analytics:'' @ short_code"

definition generate_rate_limit_key :: "string \<Rightarrow> string \<Rightarrow> string" where
  "generate_rate_limit_key ip endpoint = ''rate_limit:'' @ ip @ '':'' @ endpoint"

text \<open>
  \<open>cache_url\<close> calls \<open>cache.set_key(...)\<close> without \<open>await\<close>: the payload is encoded,
  the coroutine is built and dropped, and no command reaches the backend.
\<close>

definition cache_url :: "string \<Rightarrow> pyval \<Rightarrow> (redis, unit) io" where
  "cache_url short_code url_data = (\<lambda>r.
     let cache_key = generate_url_key short_code in
     case json_dumps url_data of
       Inl e \<Rightarrow> (Inl e, r)
     | Inr payload \<Rightarrow>
         (let dropped = set_key cache_key payload (Some CACHE_TTL) in (Inr (), r)))"

definition get_cached_url :: "string \<Rightarrow> (redis, pyval) io" where
  "get_cached_url short_code =
     (let cache_key = generate_url_key short_code in
      and_then (await (get_key cache_key)) (\<lambda>cached.
        case cached of
          None \<Rightarrow> return PNone
        | Some payload \<Rightarrow>
            if payload \<noteq> [] then (\<lambda>r. (json_loads payload, r)) else return PNone))"

definition delete_cached_url :: "string \<Rightarrow> (redis, unit) io" where
  "delete_cached_url short_code = await (delete_key (generate_url_key short_code))"

definition increment_click_count :: "string \<Rightarrow> (redis, int) io" where
  "increment_click_count short_code = await (increment_key (generate_analytics_key short_code))"

section \<open>The durable store (\<open>app/models/url_models.py\<close>, \<open>app/database.py\<close>)\<close>

text \<open>
  The rows of the tables \<open>urls\<close> and \<open>clicks\<close>. The key \<open>id\<close> of a link is \<open>url_id\<close>
  here, and the columns \<open>id\<close> and \<open>url_id\<close> of a click are \<open>click_id\<close> and
  \<open>click_url_id\<close>.
\<close>

record URL =
  url_id :: int
  original_url :: string
  short_code :: string
  custom_alias :: "string option"
  created_at :: datetime
  expires_at :: "datetime option"
  is_active :: bool
  clicks :: int

record Click =
  click_id :: int
  click_url_id :: int
  timestamp :: datetime
  ip_address :: string
  user_agent :: "string option"
  country :: "string option"
  referrer :: "string option"

text \<open>
  The tables as the session of a request sees them. What a request changes is written to
  the tables at once; \<open>db_dependency\<close> below undoes it when the request raises.
\<close>

record session =
  urls :: "URL list"
  click_rows :: "Click list"

text \<open>The state the service works on: the durable store and the cache backend.\<close>

record world =
  db :: session
  cache :: redis

definition in_cache :: "(redis, 'a) io \<Rightarrow> (world, 'a) io" where
  "in_cache m w = (case m (cache w) of (res, r') \<Rightarrow> (res, w\<lparr>cache := r'\<rparr>))"

definition lift :: "error + 'a \<Rightarrow> ('s, 'a) io" where
  "lift res s = (res, s)"

text \<open>\<open>get_db\<close>: commit when the handler returns, roll back and re-raise when it raises.\<close>

definition db_dependency :: "(world, 'a) io \<Rightarrow> (world, 'a) io" where
  "db_dependency handler w =
     (case handler w of
        (Inl e, w') \<Rightarrow> (Inl e, w'\<lparr>db := db w\<rparr>)
      | (Inr a, w') \<Rightarrow> (Inr a, w'))"

text \<open>\<open>self.db.execute(select(URL).where(...))\<close>: the rows that satisfy the condition.\<close>

definition execute_select :: "(URL \<Rightarrow> bool) \<Rightarrow> session \<Rightarrow> URL list" where
  "execute_select cond s = filter cond (urls s)"

text \<open>
  The truth value of the \<open>Result\<close> object that \<open>execute\<close> returns: the class defines
  neither \<open>__bool__\<close> nor \<open>__len__\<close>, so a result is true whatever rows it holds.
\<close>

definition result_truthy :: "URL list \<Rightarrow> bool" where
  "result_truthy rows = True"

definition scalar_one_or_none :: "URL list \<Rightarrow> error + URL option" where
  "scalar_one_or_none rows =
     (case rows of
        [] \<Rightarrow> Inr None
      | [u] \<Rightarrow> Inr (Some u)
      | _ \<Rightarrow> Inl MultipleResultsFound)"

text \<open>The characters of \<open>string.ascii_letters + string.digits\<close>.\<close>

definition characters :: string where
  "characters = ''abcdefghijklmnopqrstuvwxyzABCDEFGHIJKLMNOPQRSTUVWXYZ0123456789''"

text \<open>
  \<open>URL.generate_short_code\<close>. The random source is the sequence \<open>rnd\<close> of the draws of
  \<open>secrets.choice\<close>, read from position \<open>i\<close> on.
\<close>

definition generate_short_code :: "(nat \<Rightarrow> nat) \<Rightarrow> nat \<Rightarrow> nat \<Rightarrow> string" where
  "generate_short_code rnd i len =
     map (\<lambda>j. characters ! (rnd (i + j) mod length characters)) [0..<len]"

text \<open>\<open>URL.set_expiration\<close>; \<open>now\<close> is the UTC clock in microseconds since the epoch.\<close>

definition set_expiration :: "int option \<Rightarrow> int \<Rightarrow> URL \<Rightarrow> URL" where
  "set_expiration days now self =
     (case days of
        None \<Rightarrow> self
      | Some n \<Rightarrow>
          if n \<noteq> 0 then self\<lparr>expires_at := Some \<lparr>wall = now + n * usec_per_day, tzinfo = None\<rparr>\<rparr>
          else self)"

text \<open>
  \<open>self.db.add(db_url); await self.db.flush()\<close>: the insert gives the row its key and the
  column defaults (\<open>created_at\<close>, \<open>is_active\<close>, \<open>clicks\<close>), and the unique constraints on
  \<open>short_code\<close> and \<open>custom_alias\<close> refuse a duplicate.
\<close>

definition next_id :: "int list \<Rightarrow> int" where
  "next_id ids = fold max ids 0 + 1"

definition add_and_flush :: "URL \<Rightarrow> int \<Rightarrow> (world, URL) io" where
  "add_and_flush db_url now w =
     (let rows = urls (db w) in
      if short_code db_url \<in> set (map short_code rows)
         \<or> (custom_alias db_url \<noteq> None \<and> custom_alias db_url \<in> set (map custom_alias rows))
      then (Inl IntegrityError, w)
      else
        (let row = db_url\<lparr>url_id := next_id (map url_id rows),
                           created_at := \<lparr>wall = now, tzinfo = Some 0\<rparr>,
                           is_active := True, clicks := 0\<rparr>
         in (Inr row, w\<lparr>db := (db w)\<lparr>urls := rows @ [row]\<rparr>\<rparr>)))"

text \<open>An attribute assignment on a loaded row, written back under the row's key.\<close>

definition save :: "URL \<Rightarrow> (world, unit) io" where
  "save u w =
     (Inr (), w\<lparr>db := (db w)\<lparr>urls := map (\<lambda>x. if url_id x = url_id u then u else x) (urls (db w))\<rparr>\<rparr>)"

definition add_click :: "Click \<Rightarrow> int \<Rightarrow> (world, unit) io" where
  "add_click click now w =
     (let row = click\<lparr>click_id := next_id (map click_id (click_rows (db w))),
                        timestamp := \<lparr>wall = now, tzinfo = Some 0\<rparr>\<rparr>
      in (Inr (), w\<lparr>db := (db w)\<lparr>click_rows := click_rows (db w) @ [row]\<rparr>\<rparr>))"

definition db_delete :: "URL \<Rightarrow> (world, unit) io" where
  "db_delete u w =
     (Inr (), w\<lparr>db := (db w)\<lparr>urls := filter (\<lambda>x. url_id x \<noteq> url_id u) (urls (db w))\<rparr>\<rparr>)"

section \<open>The URL service (\<open>app/services/url_service.py\<close>)\<close>

text \<open>
  The request bodies of \<open>app/schemas/url_schemas.py\<close>, their fields prefixed with
  \<open>create_\<close> and \<open>update_\<close>. An update carries an alias and a number of days, and
  nothing else.
\<close>

record URLCreate =
  create_original_url :: string
  create_custom_alias :: "string option"
  create_expiration_days :: "int option"

record URLUpdate =
  update_custom_alias :: "string option"
  update_expiration_days :: "int option"

text \<open>The truth value of an optional string and of an optional number.\<close>

definition str_truthy :: "string option \<Rightarrow> bool" where
  "str_truthy s = (case s of None \<Rightarrow> False | Some t \<Rightarrow> t \<noteq> [])"

definition select_short_code :: "string \<Rightarrow> (world, URL option) io" where
  "select_short_code code w =
     (scalar_one_or_none (execute_select (\<lambda>u. short_code u = code) (db w)), w)"

subsection \<open>\<open>create_short_url\<close>\<close>

text \<open>
  The loop \<open>while True\<close> that generates the short code. It leaves when \<open>not existing\<close>
  holds, where \<open>existing\<close> is the result object of the query and not a row of it. A run
  that never leaves the loop is the value \<open>None\<close>.
\<close>

partial_function (option) generate_unique :: "(nat \<Rightarrow> nat) \<Rightarrow> nat \<Rightarrow> session \<Rightarrow> (string \<times> nat) option"
where
  "generate_unique rnd i s =
     (let code = generate_short_code rnd i 6;
          existing = execute_select (\<lambda>u. short_code u = code) s
      in if \<not> result_truthy existing then Some (code, i + 6)
         else generate_unique rnd (i + 6) s)"

text \<open>Up to the assignment of the short code: rate limit, validation, alias check.\<close>

definition create_checks :: "(string \<Rightarrow> bool) \<Rightarrow> URLCreate \<Rightarrow> string \<Rightarrow> int \<Rightarrow> (world, unit) io" where
  "create_checks validators_url url_data ip now =
     and_then (in_cache (check_rate_limit rate_limiter ip ''create_url'' (now div 1000000))) (\<lambda>_.
       if \<not> validators_url (create_original_url url_data) then
         raise (HTTPException 400 ''Invalid URL provided'')
       else if str_truthy (create_custom_alias url_data) then
         and_then (\<lambda>w. (scalar_one_or_none (execute_select
             (\<lambda>u. short_code u = the (create_custom_alias url_data)
                   \<or> custom_alias u = create_custom_alias url_data) (db w)), w)) (\<lambda>existing.
           if existing \<noteq> None then raise (HTTPException 400 ''Custom alias already exists'')
           else return ())
       else return ())"

text \<open>From the assigned short code on: expiration, insert, cache.\<close>

definition create_store :: "URLCreate \<Rightarrow> string \<Rightarrow> int \<Rightarrow> (world, URL) io" where
  "create_store url_data code now =
     (let db_url = \<lparr>url_id = 0, original_url = create_original_url url_data, short_code = code,
                     custom_alias = create_custom_alias url_data,
                     created_at = \<lparr>wall = now, tzinfo = Some 0\<rparr>, expires_at = None,
                     is_active = True, clicks = 0\<rparr>;
          db_url = set_expiration (create_expiration_days url_data) now db_url
      in and_then (add_and_flush db_url now) (\<lambda>db_url.
         and_then (in_cache (cache_url (short_code db_url) (PDict
             [(''original_url'', PStr (original_url db_url)),
              (''is_active'', PBool (is_active db_url)),
              (''expires_at'', case expires_at db_url of
                                 None \<Rightarrow> PNone | Some d \<Rightarrow> PStr (isoformat d))]))) (\<lambda>_.
         return db_url)))"

text \<open>
  \<open>validators_url\<close> stands for \<open>validators.url\<close> and \<open>rnd\<close> for the random source. The
  result is \<open>None\<close> when the call never returns.
\<close>

definition create_short_url ::
  "(string \<Rightarrow> bool) \<Rightarrow> (nat \<Rightarrow> nat) \<Rightarrow> URLCreate \<Rightarrow> string \<Rightarrow> int \<Rightarrow> world \<Rightarrow> ((error + URL) \<times> world) option"
where
  "create_short_url validators_url rnd url_data ip now w =
     (case create_checks validators_url url_data ip now w of
        (Inl e, w') \<Rightarrow> Some (Inl e, w')
      | (Inr _, w') \<Rightarrow>
          (case (if str_truthy (create_custom_alias url_data)
                 then Some (the (create_custom_alias url_data))
                 else map_option fst (generate_unique rnd 0 (db w'))) of
             None \<Rightarrow> None
           | Some code \<Rightarrow> Some (create_store url_data code now w')))"

subsection \<open>\<open>get_original_url\<close>\<close>

text \<open>
  Lines 82 to 107: the entry from the cache, or from the database and then cached. The
  three variables hold what the branch taken gave them.
\<close>

definition resolve_url :: "string \<Rightarrow> (world, pyval \<times> pyval \<times> pyval) io" where
  "resolve_url code =
     and_then (in_cache (get_cached_url code)) (\<lambda>cached_url.
       if truthy cached_url then
         and_then (lift (getitem cached_url ''original_url'')) (\<lambda>original_url'.
         and_then (lift (getitem cached_url ''is_active'')) (\<lambda>is_active'.
         and_then (lift (dict_get cached_url ''expires_at'')) (\<lambda>expires_at'.
         return (original_url', is_active', expires_at'))))
       else
         and_then (select_short_code code) (\<lambda>db_url.
           case db_url of
             None \<Rightarrow> raise (HTTPException 404 ''URL not found'')
           | Some u \<Rightarrow>
               and_then (in_cache (cache_url code (PDict
                   [(''original_url'', PStr (original_url u)),
                    (''is_active'', PBool (is_active u)),
                    (''expires_at'', case expires_at u of
                                       None \<Rightarrow> PNone | Some d \<Rightarrow> PStr (isoformat d))]))) (\<lambda>_.
               return (PStr (original_url u), PBool (is_active u),
                       case expires_at u of None \<Rightarrow> PNone | Some d \<Rightarrow> PDatetime d))))"

text \<open>
  Lines 109 to 131: the link must be active and not expired. \<open>now\<close> is the UTC clock in
  microseconds since the epoch, \<open>datetime.now(timezone.utc)\<close> its aware reading.
\<close>

definition check_valid :: "pyval \<Rightarrow> pyval \<Rightarrow> int \<Rightarrow> error + unit" where
  "check_valid is_active' expires_at' now =
     (if \<not> truthy is_active' then Inl (HTTPException 410 ''URL has been deactivated'')
      else if truthy expires_at' then
        (case (case expires_at' of
                 PStr s \<Rightarrow> fromisoformat s
               | PDatetime d \<Rightarrow> Inr d
               | _ \<Rightarrow> Inl AttributeError) of
           Inl e \<Rightarrow> Inl e
         | Inr expires_dt \<Rightarrow>
             (let current_time = \<lparr>wall = now, tzinfo = Some 0\<rparr>;
                  expires_dt = (if tzinfo expires_dt = None then expires_dt\<lparr>tzinfo := Some 0\<rparr>
                                else expires_dt)
              in case datetime_less expires_dt current_time of
                   Inl e \<Rightarrow> Inl e
                 | Inr True \<Rightarrow> Inl (HTTPException 410 ''URL has expired'')
                 | Inr False \<Rightarrow> Inr ()))
      else Inr ())"

text \<open>\<open>_track_click\<close>.\<close>

definition track_click :: "string \<Rightarrow> string \<Rightarrow> string option \<Rightarrow> int \<Rightarrow> (world, unit) io" where
  "track_click code ip ua now =
     and_then (select_short_code code) (\<lambda>db_url.
       case db_url of
         None \<Rightarrow> return ()
       | Some u \<Rightarrow>
           and_then (save (u\<lparr>clicks := clicks u + 1\<rparr>)) (\<lambda>_.
           and_then (add_click \<lparr>click_id = 0, click_url_id = url_id u,
                                 timestamp = \<lparr>wall = now, tzinfo = Some 0\<rparr>, ip_address = ip,
                                 user_agent = ua, country = None, referrer = None\<rparr> now) (\<lambda>_.
           and_then (in_cache (increment_click_count code)) (\<lambda>_.
           return ()))))"

definition get_original_url :: "string \<Rightarrow> string \<Rightarrow> string option \<Rightarrow> int \<Rightarrow> (world, pyval) io" where
  "get_original_url code ip ua now =
     and_then (resolve_url code) (\<lambda>(original_url', is_active', expires_at').
     and_then (lift (check_valid is_active' expires_at' now)) (\<lambda>_.
     and_then (track_click code ip ua now) (\<lambda>_.
     return original_url')))"

subsection \<open>\<open>update_url\<close> and \<open>delete_url\<close>\<close>

text \<open>
  The alias check of \<open>update_url\<close> reads \<open>db.execute\<close>, and the module has no name
  \<open>db\<close> (the session is \<open>self.db\<close>): looking the name up raises \<open>NameError\<close>.
\<close>

definition global_db :: "(world, session) io" where
  "global_db = raise (NameError ''db'')"

definition update_url :: "string \<Rightarrow> URLUpdate \<Rightarrow> int \<Rightarrow> (world, URL) io" where
  "update_url code update_data now =
     and_then (\<lambda>w. let result = execute_select (\<lambda>u. short_code u = code) (db w) in
                    ((if result_truthy result then scalar_one_or_none result else Inr None), w))
       (\<lambda>db_url.
       case db_url of
         None \<Rightarrow> raise (HTTPException 404 ''URL not found'')
       | Some u \<Rightarrow>
           and_then
             (if str_truthy (update_custom_alias update_data) then
                and_then global_db (\<lambda>s.
                and_then (lift (let result = execute_select
                                      (\<lambda>x. custom_alias x = update_custom_alias update_data
                                            \<and> url_id x \<noteq> url_id u) s
                                in if result_truthy result then scalar_one_or_none result
                                   else Inr None)) (\<lambda>existing.
                  if existing \<noteq> None then raise (HTTPException 400 ''Custom alias already exists'')
                  else return (u\<lparr>custom_alias := update_custom_alias update_data,
                                  short_code := the (update_custom_alias update_data)\<rparr>)))
              else return u) (\<lambda>u.
           let u = set_expiration (update_expiration_days update_data) now u in
           and_then (save u) (\<lambda>_.
           and_then (in_cache (delete_cached_url code)) (\<lambda>_.
           return u))))"

definition delete_url :: "string \<Rightarrow> (world, unit) io" where
  "delete_url code =
     and_then (\<lambda>w. let result = execute_select (\<lambda>u. short_code u = code) (db w) in
                    ((if result_truthy result then scalar_one_or_none result else Inr None), w))
       (\<lambda>db_url.
       case db_url of
         None \<Rightarrow> raise (HTTPException 404 ''URL not found'')
       | Some u \<Rightarrow>
           and_then (db_delete u) (\<lambda>_.
           in_cache (delete_cached_url code)))"

section \<open>The service as a whole\<close>

text \<open>
  The states that the service can be in when links are managed through its operations
  alone: from an empty table and an empty cache, by a creation that returns, by the
  checks of a creation that never returns, by a redirect, an update or a deletion, each
  within the session of its request, and by the backend's own changes (its clock moves,
  its commands fail or go through).
\<close>

inductive reachable :: "world \<Rightarrow> bool" where
  start: "reachable \<lparr>db = \<lparr>urls = [], click_rows = []\<rparr>,
                      cache = \<lparr>store = Map.empty, clock = t, faults = fs\<rparr>\<rparr>"
| backend: "reachable w \<Longrightarrow> reachable (w\<lparr>cache := (cache w)\<lparr>clock := t, faults := fs\<rparr>\<rparr>)"
| create: "reachable w \<Longrightarrow> create_short_url validators_url rnd url_data ip now w = Some out \<Longrightarrow>
           reachable (snd (db_dependency (\<lambda>w. out) w))"
| create_pending: "reachable w \<Longrightarrow> create_short_url validators_url rnd url_data ip now w = None \<Longrightarrow>
           reachable (snd (create_checks validators_url url_data ip now w))"
| redirect: "reachable w \<Longrightarrow> reachable (snd (db_dependency (get_original_url code ip ua now) w))"
| update: "reachable w \<Longrightarrow> reachable (snd (db_dependency (update_url code update_data now) w))"
| delete: "reachable w \<Longrightarrow> reachable (snd (db_dependency (delete_url code) w))"

text \<open>
  What these states have in common: every link is active, and the cache holds no entry of
  a link. The second holds because \<open>cache_url\<close> writes nothing; \<open>touches_only\<close> says that
  an effect on the backend leaves every key but one as it was.
\<close>

definition all_active :: "session \<Rightarrow> bool" where
  "all_active s = (\<forall>u \<in> set (urls s). is_active u)"

definition no_cached_link :: "redis \<Rightarrow> bool" where
  "no_cached_link r = (\<forall>code. store r (generate_url_key code) = None)"

definition invariant :: "world \<Rightarrow> bool" where
  "invariant w = (all_active (db w) \<and> no_cached_link (cache w))"

definition touches_only :: "string \<Rightarrow> (redis, 'a) io \<Rightarrow> bool" where
  "touches_only key m = (\<forall>r res r' k. m r = (res, r') \<longrightarrow> k \<noteq> key \<longrightarrow> store r' k = store r k)"


section \<open>States and inputs of the examples\<close>

subsection \<open>The backend\<close>

text \<open>An empty backend whose commands go through.\<close>

definition blank :: redis where
  "blank = \<lparr>store = Map.empty, clock = 0, faults = []\<rparr>"

text \<open>
  The sorted set of a client that sent a request in each of the seconds 5000 to 5099: one
  hundred members, the limit of the global rate limiter, all inside the window of a check
  made at second 5200.
\<close>

definition full_window :: redis where
  "full_window =
     \<lparr>store = [''rate_limit:203.0.113.7:create_url'' \<mapsto>
                 (RZSet (map (\<lambda>t. (str_int t, t)) [5000..5099]), Some 8699)],
      clock = 5200, faults = []\<rparr>"

text \<open>
  A client whose requests of the seconds 1000 and 2000 are on record, checked at second
  4600 with the window of one hour: the first request is exactly one window old.
\<close>

definition boundary_window :: redis where
  "boundary_window =
     \<lparr>store = [''rate_limit:203.0.113.7:create_url'' \<mapsto>
                 (RZSet [(''1000'', 1000), (''2000'', 2000)], Some 5600)],
      clock = 4600, faults = []\<rparr>"

text \<open>An entry as the service builds it, a backend that holds one, and one that holds a
  payload that is not JSON.\<close>

definition example_entry :: pyval where
  "example_entry = PDict [(''original_url'', PStr ''https://example.com/page''),
                          (''is_active'', PBool True),
                          (''expires_at'', PStr ''2030-01-01T00:00:00'')]"

definition cached :: redis where
  \<open>cached =
     \<lparr>store = [''url:abc123'' \<mapsto>
        (RString ''{"original_url": "https://example.com/page", "is_active": true, "expires_at": null}'',
         Some 3600)],
      clock = 0, faults = []\<rparr>\<close>


subsection \<open>The service\<close>

text \<open>A link with five clicks, and the service with no link and with this one.\<close>

definition link_abc :: URL where
  "link_abc = \<lparr>url_id = 1, original_url = ''https://example.com/page'', short_code = ''abc123'',
                custom_alias = None, created_at = \<lparr>wall = 0, tzinfo = Some 0\<rparr>,
                expires_at = None, is_active = True, clicks = 5\<rparr>"

definition no_links :: world where
  "no_links = \<lparr>db = \<lparr>urls = [], click_rows = []\<rparr>, cache = blank\<rparr>"

definition one_link :: world where
  "one_link = \<lparr>db = \<lparr>urls = [link_abc], click_rows = []\<rparr>, cache = blank\<rparr>"




text \<open>The service with its one link and a cache whose next command fails.\<close>

definition cache_down :: world where
  "cache_down = one_link\<lparr>cache := blank\<lparr>faults := [True]\<rparr>\<rparr>"

text \<open>
  The service after its first request: the creation, at 1700000000 seconds after the epoch,
  of a link with the alias \<open>promo1\<close> and thirty days to live.
\<close>

definition promo1 :: URL where
  "promo1 = \<lparr>url_id = 1, original_url = ''https://example.com/page'', short_code = ''promo1'',
              custom_alias = Some ''promo1'', created_at = \<lparr>wall = 1700000000000000, tzinfo = Some 0\<rparr>,
              expires_at = Some \<lparr>wall = 1702592000000000, tzinfo = None\<rparr>,
              is_active = True, clicks = 0\<rparr>"

definition launched :: world where
  "launched =
     \<lparr>db = \<lparr>urls = [promo1], click_rows = []\<rparr>,
      cache = \<lparr>store = [''rate_limit:203.0.113.7:create_url'' \<mapsto>
                          (RZSet [(''1700000000'', 1700000000)], Some 1700003600)],
               clock = 1700000000, faults = []\<rparr>\<rparr>"

section \<open>Properties of the cache backend and the rate limiter\<close>

lemma await_command: "faults r = [] \<Longrightarrow> await (command m) r = m r"
  by (simp add: command_def)

lemma await_command_fault: "faults r = True # fs \<Longrightarrow> await (command m) r = (Inl ConnectionError, r\<lparr>faults := fs\<rparr>)"
  by (simp add: command_def)

lemma zset_of_live: "zset_of r key = Inr (z, Some t) \<Longrightarrow> clock r < t"
  by (auto simp: zset_of_def lookup_def split: option.splits rvalue.splits if_splits)

lemma faults_put_zset [simp]: "faults (put_zset r key z ex) = faults r"
  by (simp add: put_zset_def)

lemma clock_put_zset [simp]: "clock (put_zset r key z ex) = clock r"
  by (simp add: put_zset_def)

lemma zset_of_put_zset:
  "zset_of r key = Inr (z, ex) \<Longrightarrow>
   zset_of (put_zset r key z' ex) key = Inr (z', if z' = [] then None else ex)"
  by (cases ex)
     (auto simp: put_zset_def zset_of_def lookup_def dest: zset_of_live
           split: option.splits rvalue.splits if_splits)

lemma zremrangebyscore_ok:
  "faults r = [] \<Longrightarrow> zset_of r key = Inr (z, ex) \<Longrightarrow>
   await (zremrangebyscore key lo hi) r
     = (Inr (), put_zset r key (filter (\<lambda>(m, sc). \<not> (lo \<le> sc \<and> sc \<le> hi)) z) ex)"
  by (simp add: zremrangebyscore_def await_command)

lemma zcard_ok:
  "faults r = [] \<Longrightarrow> zset_of r key = Inr (z, ex) \<Longrightarrow>
   await (zcard key) r = (Inr (int (length z)), r)"
  by (simp add: zcard_def await_command)

lemma zadd_ok:
  "faults r = [] \<Longrightarrow> zset_of r key = Inr (z, ex) \<Longrightarrow>
   await (zadd key [(m, sc)]) r = (Inr (), put_zset r key (AList.update m sc z) ex)"
  by (simp add: zadd_def await_command)

lemma expire_ok: "faults r = [] \<Longrightarrow> fst (await (expire key t) r) = Inr ()"
  by (simp add: expire_def await_command split: option.splits)

lemma update_not_Nil [simp]: "AList.update k v al \<noteq> []"
  by (cases al) auto

lemma filter_map_all: "(\<And>x. x \<in> set xs \<Longrightarrow> P (f x)) \<Longrightarrow> filter P (map f xs) = map f xs"
  by (induction xs) auto

text \<open>What the body of the check does when no command fails.\<close>

lemma check_rate_limit_body_eq:
  assumes "faults r = []" and "zset_of r key = Inr (z, ex)"
  shows "check_rate_limit_body self key current r =
     (let kept = filter (\<lambda>(m, sc). \<not> (0 \<le> sc \<and> sc \<le> current - window self)) z;
          r1 = put_zset r key kept ex
      in if requests self \<le> int (length kept)
         then (Inl (HTTPException 429 ''Rate limit exceeded''), r1)
         else await (expire key (window self))
                (put_zset r1 key (AList.update (str_int current) current kept)
                   (if kept = [] then None else ex)))"
proof -
  define kept where "kept = filter (\<lambda>(m, sc). \<not> (0 \<le> sc \<and> sc \<le> current - window self)) z"
  define r1 where "r1 = put_zset r key kept ex"
  have trim: "await (zremrangebyscore key 0 (current - window self)) r = (Inr (), r1)"
    using assms by (simp add: zremrangebyscore_ok kept_def r1_def)
  have f1: "faults r1 = []"
    using assms by (simp add: r1_def)
  have z1: "zset_of r1 key = Inr (kept, if kept = [] then None else ex)"
    using assms(2) by (simp add: r1_def zset_of_put_zset)
  have count: "await (zcard key) r1 = (Inr (int (length kept)), r1)"
    using f1 z1 by (rule zcard_ok)
  have add: "await (zadd key [(str_int current, current)]) r1
      = (Inr (), put_zset r1 key (AList.update (str_int current) current kept)
                   (if kept = [] then None else ex))"
    using f1 z1 by (rule zadd_ok)
  have "check_rate_limit_body self key current r =
      (if requests self \<le> int (length kept)
       then (Inl (HTTPException 429 ''Rate limit exceeded''), r1)
       else await (expire key (window self))
              (put_zset r1 key (AList.update (str_int current) current kept)
                 (if kept = [] then None else ex)))"
    unfolding check_rate_limit_body_def
    by (simp add: and_then_def raise_def trim count add)
  then show ?thesis
    by (simp only: Let_def kept_def r1_def)
qed

text \<open>The handler swallows every exception: the check returns whatever happened.\<close>

lemma check_rate_limit_returns: "fst (check_rate_limit self ip endpoint current r) = Inr ()"
  by (simp add: check_rate_limit_def try_except_def return_def split: prod.splits sum.splits)

subsection \<open>A client at its limit\<close>

lemma full_window_zset:
  "zset_of full_window ''rate_limit:203.0.113.7:create_url''
     = Inr (map (\<lambda>t. (str_int t, t)) [5000..5099], Some 8699)"
  by (simp add: full_window_def zset_of_def lookup_def)

text \<open>
  Claim C1. With at least as many requests recorded in the window as the limit allows,
  \<open>check_rate_limit\<close> is to refuse the request with the rate-limit error and add no member.
  The code does not: the body of the \<open>try\<close> counts the one hundred members and raises the
  error 429, the handler \<open>except Exception\<close> of the same function catches it, and the check
  returns normally with the set as it was. The request is let through.
\<close>

theorem check_rate_limit_at_limit:
  "fst (await (zcard ''rate_limit:203.0.113.7:create_url'') full_window) = Inr 100
   \<and> fst (check_rate_limit_body rate_limiter ''rate_limit:203.0.113.7:create_url'' 5200 full_window)
       = Inl (HTTPException 429 ''Rate limit exceeded'')
   \<and> check_rate_limit rate_limiter ''203.0.113.7'' ''create_url'' 5200 full_window
       = (Inr (), full_window)"
proof -
  let ?z = "map (\<lambda>t. (str_int t, t)) [5000..5099]"
  have f: "faults full_window = []"
    by (simp add: full_window_def)
  have kept: "filter (\<lambda>(m, sc). \<not> (0 \<le> sc \<and> sc \<le> 5200 - window rate_limiter)) ?z = ?z"
  proof (rule filter_map_all)
    fix t :: int
    assume "t \<in> set [5000..5099]"
    then have "5000 \<le> t"
      by (simp only: set_upto atLeastAtMost_iff)
    then show "case (str_int t, t) of (m, sc) \<Rightarrow> \<not> (0 \<le> sc \<and> sc \<le> 5200 - window rate_limiter)"
      by (simp add: rate_limiter_def)
  qed
  have len: "int (length ?z) = 100"
    by (simp only: length_map length_upto)
  have same: "put_zset full_window ''rate_limit:203.0.113.7:create_url'' ?z (Some 8699) = full_window"
    by (simp add: put_zset_def full_window_def)
  have body: "check_rate_limit_body rate_limiter ''rate_limit:203.0.113.7:create_url'' 5200 full_window
      = (Inl (HTTPException 429 ''Rate limit exceeded''), full_window)"
    by (simp only: check_rate_limit_body_eq [OF f full_window_zset] kept same Let_def len)
       (simp add: rate_limiter_def)
  have card: "await (zcard ''rate_limit:203.0.113.7:create_url'') full_window = (Inr 100, full_window)"
    by (simp only: zcard_ok [OF f full_window_zset] len)
  show ?thesis
    by (simp add: body card check_rate_limit_def rate_limit_key_def try_except_def return_def)
qed

subsection \<open>The edge of the window\<close>

lemma boundary_window_zset:
  "zset_of boundary_window ''rate_limit:203.0.113.7:create_url''
     = Inr ([(''1000'', 1000), (''2000'', 2000)], Some 5600)"
  by (simp add: boundary_window_def zset_of_def lookup_def)

text \<open>
  Claim C9, as stated: the trim removes the members with a score strictly below
  \<open>T - W\<close>, and a member scored exactly \<open>T - W\<close> stays and is counted. It does not
  stay: the check at \<open>T = 4600\<close> with \<open>W = 3600\<close> removes the member scored 1000, and the
  set holds the request of second 2000 and the new one.
\<close>

theorem trim_boundary_counterexample:
  "zset_of (snd (check_rate_limit rate_limiter ''203.0.113.7'' ''create_url'' 4600 boundary_window))
      ''rate_limit:203.0.113.7:create_url''
     = Inr ([(''2000'', 2000), (''4600'', 4600)], Some 8200)"
proof -
  have f: "faults boundary_window = []"
    by (simp add: boundary_window_def)
  have body: "check_rate_limit_body rate_limiter ''rate_limit:203.0.113.7:create_url'' 4600 boundary_window
      = await (expire ''rate_limit:203.0.113.7:create_url'' 3600)
          (put_zset (put_zset boundary_window ''rate_limit:203.0.113.7:create_url''
                       [(''2000'', 2000)] (Some 5600))
             ''rate_limit:203.0.113.7:create_url'' [(''2000'', 2000), (''4600'', 4600)] (Some 5600))"
    by (simp only: check_rate_limit_body_eq [OF f boundary_window_zset])
       (simp add: rate_limiter_def str_int_def str_nat.simps digit_char_def)
  have key: "rate_limit_key ''203.0.113.7'' ''create_url'' = ''rate_limit:203.0.113.7:create_url''"
    by (simp add: rate_limit_key_def)
  show ?thesis
    by (simp only: check_rate_limit_def key try_except_def body)
       (simp add: expire_def command_def put_zset_def lookup_def zset_of_def boundary_window_def)
qed

text \<open>
  Claim C9, amended. The check calls \<open>zremrangebyscore(key, 0, T - W)\<close>, whose bounds
  are inclusive: when no command fails, the trim removes exactly the members with
  \<open>0 \<le> score \<le> T - W\<close>, and the request count that is compared with the limit is the
  number of the members left, those scored above \<open>T - W\<close> (or below 0). A member
  scored exactly \<open>T - W\<close> is removed and not counted.
\<close>

theorem trim_through_window_start:
  assumes "faults r = []" and "zset_of r key = Inr (z, ex)"
  shows "let kept = filter (\<lambda>(m, sc). sc < 0 \<or> current - window self < sc) z in
           zset_of (snd (await (zremrangebyscore key 0 (current - window self)) r)) key
             = Inr (kept, if kept = [] then None else ex)
         \<and> (fst (check_rate_limit_body self key current r)
               = Inl (HTTPException 429 ''Rate limit exceeded''))
             = (requests self \<le> int (length kept))"
proof -
  define kept where "kept = filter (\<lambda>(m :: string, sc). sc < 0 \<or> current - window self < sc) z"
  have same: "filter (\<lambda>(m, sc). \<not> (0 \<le> sc \<and> sc \<le> current - window self)) z = kept"
    unfolding kept_def by (rule filter_cong) auto
  have "await (zremrangebyscore key 0 (current - window self)) r = (Inr (), put_zset r key kept ex)"
    by (simp only: zremrangebyscore_ok [OF assms] same)
  then have trim: "zset_of (snd (await (zremrangebyscore key 0 (current - window self)) r)) key
      = Inr (kept, if kept = [] then None else ex)"
    by (simp only: snd_conv zset_of_put_zset [OF assms(2)])
  have body: "check_rate_limit_body self key current r =
      (if requests self \<le> int (length kept)
       then (Inl (HTTPException 429 ''Rate limit exceeded''), put_zset r key kept ex)
       else await (expire key (window self))
              (put_zset (put_zset r key kept ex) key (AList.update (str_int current) current kept)
                 (if kept = [] then None else ex)))"
    by (simp only: check_rate_limit_body_eq [OF assms] Let_def same)
  have count: "(fst (check_rate_limit_body self key current r)
               = Inl (HTTPException 429 ''Rate limit exceeded''))
             = (requests self \<le> int (length kept))"
  proof (cases "requests self \<le> int (length kept)")
    case True
    then show ?thesis by (simp add: body)
  next
    case False
    have "fst (await (expire key (window self))
                 (put_zset (put_zset r key kept ex) key (AList.update (str_int current) current kept)
                    (if kept = [] then None else ex))) = Inr ()"
      by (rule expire_ok) (simp add: assms(1))
    with False show ?thesis by (simp add: body)
  qed
  show ?thesis
    unfolding Let_def kept_def [symmetric] using trim count by simp
qed

theorem trim_through_window_start_witness:
  "faults boundary_window = []
   \<and> zset_of boundary_window ''rate_limit:203.0.113.7:create_url''
       = Inr ([(''1000'', 1000), (''2000'', 2000)], Some 5600)
   \<and> zset_of (snd (await (zremrangebyscore ''rate_limit:203.0.113.7:create_url'' 0 (4600 - 3600))
                      boundary_window)) ''rate_limit:203.0.113.7:create_url''
       = Inr ([(''2000'', 2000)], Some 5600)
   \<and> fst (check_rate_limit_body rate_limiter ''rate_limit:203.0.113.7:create_url'' 4600 boundary_window)
       \<noteq> Inl (HTTPException 429 ''Rate limit exceeded'')"
proof -
  have f: "faults boundary_window = []"
    by (simp add: boundary_window_def)
  show ?thesis
    using trim_through_window_start [OF f boundary_window_zset, of 4600 rate_limiter]
    by (simp add: f boundary_window_zset rate_limiter_def)
qed

section \<open>Properties of the cache service\<close>

lemma cache_url_no_effect: "snd (cache_url code url_data r) = r"
  by (simp add: cache_url_def split: sum.splits)

text \<open>
  Claim C2. Caching an entry and reading it back is to give the entry. The code gives
  nothing: \<open>cache_url\<close> builds the coroutine of \<open>cache.set_key\<close> and never awaits it, so
  the backend is left as it was, and \<open>get_cached_url\<close> on the same short code misses.
\<close>

theorem cache_url_then_get_cached_url:
  "cache_url ''abc123'' example_entry blank = (Inr (), blank)
   \<and> get_cached_url ''abc123'' (snd (cache_url ''abc123'' example_entry blank)) = (Inr PNone, blank)"
  by (simp add: cache_url_def get_cached_url_def json_dumps_def example_entry_def blank_def
        get_key_def command_def lookup_def and_then_def return_def Let_def)





section \<open>Properties of the URL service\<close>

text \<open>The loop has no exit: the result object is true on every round.\<close>

lemma generate_unique_None: "generate_unique rnd i s = None"
proof (cases "generate_unique rnd i s")
  case None
  then show ?thesis .
next
  case (Some y)
  have False
  proof (rule generate_unique.raw_induct [where P = "\<lambda>rnd i s y. False", OF _ Some])
    fix f :: "(nat \<Rightarrow> nat) \<Rightarrow> nat \<Rightarrow> session \<Rightarrow> (string \<times> nat) option" and rnd' i' s' y'
    assume IH: "\<And>rnd i s y. f rnd i s = Some y \<Longrightarrow> False"
      and step: "(let code = generate_short_code rnd' i' 6;
                      existing = execute_select (\<lambda>u. short_code u = code) s'
                  in if \<not> result_truthy existing then Some (code, i' + 6)
                     else f rnd' (i' + 6) s') = Some y'"
    from step have "f rnd' (i' + 6) s' = Some y'"
      by (simp add: result_truthy_def Let_def)
    then show False
      by (rule IH)
  qed
  then show ?thesis ..
qed

text \<open>
  Claim C3. A creation without a custom alias is to leave the generation loop with a
  short code that no link holds. The code never leaves it: \<open>existing\<close> is the result
  object of \<open>execute\<close>, \<open>not existing\<close> is false on every round, whatever the table holds
  and whatever codes are drawn, and the request does not return, even on an empty table.
\<close>

theorem create_short_url_never_returns:
  "generate_unique rnd i s = None
   \<and> create_short_url (\<lambda>url. True) rnd
        \<lparr>create_original_url = ''https://example.com/page'', create_custom_alias = None,
         create_expiration_days = Some 30\<rparr> ''203.0.113.7'' now no_links = None"
proof -
  have "fst (create_checks (\<lambda>url. True) \<lparr>create_original_url = ''https://example.com/page'',
          create_custom_alias = None, create_expiration_days = Some 30\<rparr> ''203.0.113.7'' now no_links)
        = Inr ()"
    using check_rate_limit_returns [of rate_limiter "''203.0.113.7''" "''create_url''" "now div 1000000" "cache no_links"]
    by (cases "check_rate_limit rate_limiter ''203.0.113.7'' ''create_url'' (now div 1000000) (cache no_links)")
       (simp add: create_checks_def and_then_def in_cache_def str_truthy_def return_def)
  then obtain w' where "create_checks (\<lambda>url. True) \<lparr>create_original_url = ''https://example.com/page'',
          create_custom_alias = None, create_expiration_days = Some 30\<rparr> ''203.0.113.7'' now no_links
        = (Inr (), w')"
    by (metis prod.collapse)
  then show ?thesis
    by (simp add: create_short_url_def generate_unique_None str_truthy_def)
qed

text \<open>
  Claim C4. An update that carries an alias is to check the alias against the other
  links, refuse a collision, and otherwise make the alias the short code and delete the
  cached entry. The code raises \<open>NameError\<close> before the check: the query is sent to
  \<open>db\<close>, a name the module does not define. The link and the cache are left as they
  were.
\<close>

theorem update_url_with_alias:
  "update_url ''abc123'' \<lparr>update_custom_alias = Some ''promo1'', update_expiration_days = None\<rparr>
      now one_link = (Inl (NameError ''db''), one_link)"
  by (simp add: update_url_def and_then_def global_db_def raise_def result_truthy_def
        execute_select_def scalar_one_or_none_def one_link_def link_abc_def str_truthy_def)

subsection \<open>Redirects\<close>

lemmas run_service = get_original_url_def resolve_url_def check_valid_def track_click_def
  get_cached_url_def cache_url_def delete_cached_url_def increment_click_count_def
  generate_url_key_def generate_analytics_key_def
  get_key_def set_key_def delete_key_def increment_key_def command_def lookup_def
  and_then_def return_def raise_def lift_def in_cache_def select_short_code_def
  execute_select_def scalar_one_or_none_def save_def add_click_def db_delete_def next_id_def
  json_dumps_def datetime_less_def Let_def


text \<open>
  Claim C6, as stated: a failure of a cache-backend call is caught and the enclosing
  operation succeeds. The redirect of a link that the table holds fails with the error
  of the backend when the read of the cache fails.
\<close>

theorem cache_failure_counterexample:
  "fst (db_dependency (get_original_url ''abc123'' ''198.51.100.4'' None 0) cache_down)
     = Inl ConnectionError"
  by (simp add: db_dependency_def run_service cache_down_def one_link_def blank_def)


lemma command_frame:
  assumes "\<And>r res r'. m r = (res, r') \<Longrightarrow> P (store r) (store r') \<and> clock r' = clock r"
    and "\<And>f. P f f"
    and "await (command m) r = (res, r')"
  shows "P (store r) (store r') \<and> clock r' = clock r"
proof (cases "faults r")
  case Nil
  then show ?thesis using assms(1) [of r res r'] assms(3) by (simp add: command_def)
next
  case (Cons b fs)
  show ?thesis
  proof (cases b)
    case True
    then show ?thesis using Cons assms(2,3) by (auto simp: command_def)
  next
    case False
    then have "m (r\<lparr>faults := fs\<rparr>) = (res, r')"
      using Cons assms(3) by (simp add: command_def)
    from assms(1) [OF this] show ?thesis by simp
  qed
qed

lemma get_key_frame:
  "await (get_key key) r = (res, r') \<Longrightarrow> store r' = store r \<and> clock r' = clock r"
  unfolding get_key_def
  by (rule command_frame [where P = "\<lambda>f g. g = f"])
     (auto split: option.splits prod.splits rvalue.splits)

lemma increment_key_frame:
  "await (increment_key key) r = (res, r') \<Longrightarrow>
   (\<forall>k. k \<noteq> key \<longrightarrow> store r' k = store r k) \<and> clock r' = clock r"
  unfolding increment_key_def
  by (rule command_frame [where P = "\<lambda>f g. \<forall>k. k \<noteq> key \<longrightarrow> g k = f k"])
     (auto split: option.splits prod.splits rvalue.splits if_splits)

lemma cache_url_eq:
  "cache_url code d r = ((case json_dumps d of Inl e \<Rightarrow> Inl e | Inr p \<Rightarrow> Inr ()), r)"
  by (simp add: cache_url_def split: sum.splits)

lemma get_cached_url_frame:
  "get_cached_url code r = (res, r') \<Longrightarrow> store r' = store r \<and> clock r' = clock r"
  by (auto simp: get_cached_url_def and_then_def return_def Let_def
           split: prod.splits sum.splits option.splits if_splits dest: get_key_frame)

lemma resolve_url_frame:
  assumes "resolve_url code w = (res, w')"
  shows "db w' = db w \<and> store (cache w') = store (cache w) \<and> clock (cache w') = clock (cache w)"
proof -
  obtain c r1 where g: "get_cached_url code (cache w) = (c, r1)"
    by (cases "get_cached_url code (cache w)")
  note fr = get_cached_url_frame [OF g]
  show ?thesis
    using assms fr
    by (auto simp: resolve_url_def and_then_def in_cache_def g lift_def return_def raise_def
          select_short_code_def cache_url_eq
          split: sum.splits if_splits option.splits prod.splits)
qed

lemma command_error:
  assumes "\<And>r e r'. m r = (Inl e, r') \<Longrightarrow> \<exists>t. e = ResponseError t"
    and "await (command m) r = (Inl e, r')"
  shows "e = ConnectionError \<or> (\<exists>t. e = ResponseError t)"
  using assms(2) assms(1)
  by (auto simp: command_def split: list.splits bool.splits)

lemma increment_key_error:
  "await (increment_key key) r = (Inl e, r') \<Longrightarrow> e = ConnectionError \<or> (\<exists>t. e = ResponseError t)"
  unfolding increment_key_def
  by (rule command_error)
     (auto simp: wrongtype_def split: option.splits prod.splits rvalue.splits if_splits)

lemma track_click_error:
  "track_click code ip ua now w = (Inl e, w') \<Longrightarrow>
   e = MultipleResultsFound \<or> e = ConnectionError \<or> (\<exists>t. e = ResponseError t)"
  by (auto simp: track_click_def and_then_def select_short_code_def save_def add_click_def
        in_cache_def return_def increment_click_count_def scalar_one_or_none_def Let_def
        split: prod.splits sum.splits option.splits list.splits dest: increment_key_error)







lemma get_cached_url_fault:
  "faults r = True # fs \<Longrightarrow> get_cached_url code r = (Inl ConnectionError, r\<lparr>faults := fs\<rparr>)"
  by (simp add: get_cached_url_def get_key_def await_command_fault and_then_def Let_def)

lemma delete_cached_url_fault:
  "faults r = True # fs \<Longrightarrow> delete_cached_url code r = (Inl ConnectionError, r\<lparr>faults := fs\<rparr>)"
  by (simp add: delete_cached_url_def delete_key_def await_command_fault)

lemma increment_click_count_fault:
  "faults r = True # fs \<Longrightarrow> increment_click_count code r = (Inl ConnectionError, r\<lparr>faults := fs\<rparr>)"
  by (simp add: increment_click_count_def increment_key_def await_command_fault)

text \<open>
  Claim C6, amended. The cache service catches nothing. When the next command to the
  backend fails, \<open>get_cached_url\<close>, \<open>delete_cached_url\<close> and \<open>increment_click_count\<close>
  raise the error of the backend, and so do the operations that call them first: the
  redirect, the recording of a click, the deletion of a link, and the update of a link
  that carries no alias.
\<close>

theorem cache_failure_propagates:
  assumes "faults (cache w) = True # fs"
  shows "fst (get_cached_url code (cache w)) = Inl ConnectionError
       \<and> fst (delete_cached_url code (cache w)) = Inl ConnectionError
       \<and> fst (increment_click_count code (cache w)) = Inl ConnectionError
       \<and> fst (get_original_url code ip ua now w) = Inl ConnectionError
       \<and> (\<forall>u. execute_select (\<lambda>x. short_code x = code) (db w) = [u] \<longrightarrow>
             fst (track_click code ip ua now w) = Inl ConnectionError
           \<and> fst (delete_url code w) = Inl ConnectionError
           \<and> (\<not> str_truthy (update_custom_alias upd) \<longrightarrow>
                 fst (update_url code upd now w) = Inl ConnectionError))"
  using assms
  by (auto simp: get_cached_url_fault delete_cached_url_fault increment_click_count_fault
        get_original_url_def resolve_url_def track_click_def delete_url_def update_url_def
        and_then_def in_cache_def select_short_code_def result_truthy_def scalar_one_or_none_def
        save_def add_click_def db_delete_def return_def Let_def)

theorem cache_failure_propagates_witness:
  "faults (cache cache_down) = [True]
   \<and> fst (get_original_url ''abc123'' ''198.51.100.4'' None 0 cache_down) = Inl ConnectionError
   \<and> fst (delete_url ''abc123'' cache_down) = Inl ConnectionError
   \<and> fst (update_url ''abc123'' \<lparr>update_custom_alias = None, update_expiration_days = Some 7\<rparr> 0 cache_down)
       = Inl ConnectionError"
proof -
  have f: "faults (cache cache_down) = [True]"
    by (simp add: cache_down_def blank_def)
  have row: "execute_select (\<lambda>x. short_code x = ''abc123'') (db cache_down) = [link_abc]"
    by (simp add: cache_down_def one_link_def execute_select_def link_abc_def)
  show ?thesis
    using cache_failure_propagates [OF f, of "''abc123''" "''198.51.100.4''" None 0
            "\<lparr>update_custom_alias = None, update_expiration_days = Some 7\<rparr>"] row
    by (simp add: f str_truthy_def)
qed

lemma increment_click_count_frame:
  "increment_click_count code r = (res, r') \<Longrightarrow>
   store r' (generate_url_key code') = store r (generate_url_key code') \<and> clock r' = clock r"
  using increment_key_frame [of "generate_analytics_key code" r res r']
  by (simp add: increment_click_count_def generate_analytics_key_def generate_url_key_def)


subsection \<open>Links stay active\<close>

lemma touches_only_return: "touches_only key (return a)"
  by (simp add: touches_only_def return_def)

lemma touches_only_raise: "touches_only key (raise e)"
  by (simp add: touches_only_def raise_def)

lemma touches_only_and_then:
  assumes "touches_only key m" and "\<And>a. touches_only key (f a)"
  shows "touches_only key (and_then m f)"
  unfolding touches_only_def
proof (intro allI impI)
  fix r res r' k
  assume run: "and_then m f r = (res, r')" and k: "k \<noteq> key"
  obtain x r1 where m: "m r = (x, r1)"
    by (cases "m r")
  have s1: "store r1 k = store r k"
    using assms(1) m k by (auto simp: touches_only_def)
  show "store r' k = store r k"
  proof (cases x)
    case (Inl e)
    then show ?thesis using run m s1 by (simp add: and_then_def)
  next
    case (Inr a)
    then have "f a r1 = (res, r')"
      using run m by (simp add: and_then_def)
    then have "store r' k = store r1 k"
      using assms(2) [of a] k by (auto simp: touches_only_def)
    then show ?thesis using s1 by simp
  qed
qed

lemma touches_only_try_except:
  assumes "touches_only key m" and "\<And>e. touches_only key (h e)"
  shows "touches_only key (try_except m h)"
  unfolding touches_only_def
proof (intro allI impI)
  fix r res r' k
  assume run: "try_except m h r = (res, r')" and k: "k \<noteq> key"
  obtain x r1 where m: "m r = (x, r1)"
    by (cases "m r")
  have s1: "store r1 k = store r k"
    using assms(1) m k by (auto simp: touches_only_def)
  show "store r' k = store r k"
  proof (cases x)
    case (Inr a)
    then show ?thesis using run m s1 by (simp add: try_except_def)
  next
    case (Inl e)
    then have "h e r1 = (res, r')"
      using run m by (simp add: try_except_def)
    then have "store r' k = store r1 k"
      using assms(2) [of e] k by (auto simp: touches_only_def)
    then show ?thesis using s1 by simp
  qed
qed

lemma touches_only_command:
  assumes "\<And>r res r' k. m r = (res, r') \<Longrightarrow> k \<noteq> key \<Longrightarrow> store r' k = store r k"
  shows "touches_only key (await (command m))"
  unfolding touches_only_def
proof (intro allI impI)
  fix r res r' k
  assume run: "await (command m) r = (res, r')" and k: "k \<noteq> key"
  show "store r' k = store r k"
    using run k assms [of r res r' k] assms [of "r\<lparr>faults := tl (faults r)\<rparr>" res r' k]
    by (auto simp: command_def split: list.splits bool.splits)
qed

lemma store_put_zset: "k \<noteq> key \<Longrightarrow> store (put_zset r key z ex) k = store r k"
  by (simp add: put_zset_def)

lemma touches_only_zremrangebyscore: "touches_only key (await (zremrangebyscore key lo hi))"
  unfolding zremrangebyscore_def
  by (rule touches_only_command) (auto simp: store_put_zset split: sum.splits prod.splits)

lemma touches_only_zcard: "touches_only key (await (zcard key))"
  unfolding zcard_def
  by (rule touches_only_command) (auto split: sum.splits prod.splits)

lemma touches_only_zadd: "touches_only key (await (zadd key mapping))"
  unfolding zadd_def
  by (rule touches_only_command) (auto simp: store_put_zset split: sum.splits prod.splits)

lemma touches_only_expire: "touches_only key (await (expire key t))"
  unfolding expire_def
  by (rule touches_only_command) (auto split: option.splits prod.splits if_splits)

lemma touches_only_check_rate_limit:
  "touches_only (rate_limit_key ip endpoint) (check_rate_limit self ip endpoint current)"
  unfolding check_rate_limit_def check_rate_limit_body_def Let_def
  by (intro touches_only_try_except touches_only_and_then touches_only_return
        touches_only_zremrangebyscore touches_only_zcard)
     (auto intro!: touches_only_raise touches_only_and_then touches_only_zadd touches_only_expire)

lemma url_key_not_rate_limit_key [simp]: "generate_url_key code \<noteq> rate_limit_key ip endpoint"
  by (simp add: generate_url_key_def rate_limit_key_def)

lemma no_cached_link_check_rate_limit:
  "no_cached_link r \<Longrightarrow> no_cached_link (snd (check_rate_limit self ip endpoint current r))"
  using touches_only_check_rate_limit [of ip endpoint self current]
  by (cases "check_rate_limit self ip endpoint current r")
     (auto simp: touches_only_def no_cached_link_def)

lemma scalar_row_in:
  "scalar_one_or_none (execute_select cond s) = Inr (Some u) \<Longrightarrow> u \<in> set (urls s)"
proof -
  assume a: "scalar_one_or_none (execute_select cond s) = Inr (Some u)"
  then have "execute_select cond s = [u]"
    by (auto simp: scalar_one_or_none_def split: list.splits)
  then have "u \<in> set (filter cond (urls s))"
    by (simp add: execute_select_def)
  then show ?thesis by simp
qed

lemma db_dependency_invariant:
  assumes "invariant w"
    and "\<And>res w'. handler w = (res, w') \<Longrightarrow> invariant w'"
  shows "invariant (snd (db_dependency handler w))"
proof -
  obtain res w' where h: "handler w = (res, w')"
    by (cases "handler w")
  from assms(2) [OF h] assms(1) show ?thesis
    by (cases res) (simp_all add: db_dependency_def h invariant_def)
qed

lemma create_checks_invariant:
  assumes "create_checks validators_url url_data ip now w = (res, w')" and "invariant w"
  shows "invariant w'"
proof -
  obtain x r1 where c: "check_rate_limit rate_limiter ip ''create_url'' (now div 1000000) (cache w) = (x, r1)"
    by (cases "check_rate_limit rate_limiter ip ''create_url'' (now div 1000000) (cache w)")
  have "no_cached_link r1"
    using no_cached_link_check_rate_limit [of "cache w" rate_limiter ip "''create_url''" "now div 1000000"]
      assms(2) c by (simp add: invariant_def)
  then show ?thesis
    using assms c
    by (auto simp: create_checks_def and_then_def in_cache_def raise_def return_def invariant_def
          split: sum.splits if_splits prod.splits)
qed

lemma create_store_invariant:
  assumes "create_store url_data code now w = (res, w')" and "invariant w"
  shows "invariant w'"
  using assms
  by (auto simp: create_store_def add_and_flush_def and_then_def in_cache_def cache_url_eq
        return_def invariant_def all_active_def Let_def
        split: sum.splits if_splits prod.splits)

lemma create_short_url_invariant:
  assumes "create_short_url validators_url rnd url_data ip now w = Some (res, w')" and "invariant w"
  shows "invariant w'"
proof -
  obtain x w1 where c: "create_checks validators_url url_data ip now w = (x, w1)"
    by (cases "create_checks validators_url url_data ip now w")
  have i1: "invariant w1"
    using create_checks_invariant [OF c assms(2)] .
  show ?thesis
  proof (cases x)
    case (Inl e)
    then show ?thesis using assms(1) c i1 by (simp add: create_short_url_def)
  next
    case (Inr u)
    then have "create_store url_data (the (create_custom_alias url_data)) now w1 = (res, w')"
      using assms(1) c
      by (simp add: create_short_url_def generate_unique_None split: if_splits)
    then show ?thesis by (rule create_store_invariant) (rule i1)
  qed
qed

lemma track_click_invariant:
  assumes "track_click code ip ua now w = (res, w')" and "invariant w"
  shows "invariant w'"
proof -
  obtain x r2 where inc: "increment_click_count code (cache w) = (x, r2)"
    by (cases "increment_click_count code (cache w)")
  have r2: "no_cached_link r2"
    using increment_click_count_frame [OF inc] assms(2)
    by (simp add: no_cached_link_def invariant_def)
  show ?thesis
    using assms inc r2
    by (auto simp: track_click_def and_then_def select_short_code_def save_def add_click_def
          in_cache_def return_def invariant_def all_active_def Let_def
          dest!: scalar_row_in split: sum.splits option.splits prod.splits)
qed

lemma get_original_url_invariant:
  assumes "get_original_url code ip ua now w = (res, w')" and "invariant w"
  shows "invariant w'"
proof -
  obtain x w1 where r: "resolve_url code w = (x, w1)"
    by (cases "resolve_url code w")
  have i1: "invariant w1"
    using resolve_url_frame [OF r] assms(2) by (simp add: invariant_def no_cached_link_def)
  show ?thesis
  proof (cases x)
    case (Inl e)
    then show ?thesis using assms(1) r i1 by (simp add: get_original_url_def and_then_def)
  next
    case (Inr t)
    obtain a b c where t: "t = (a, b, c)" by (cases t)
    obtain y w2 where k: "track_click code ip ua now w1 = (y, w2)"
      by (cases "track_click code ip ua now w1")
    have "invariant w2"
      using track_click_invariant [OF k i1] .
    then show ?thesis
      using assms(1) r i1 Inr t k
      by (auto simp: get_original_url_def and_then_def lift_def return_def split: sum.splits)
  qed
qed

lemma delete_cached_url_no_cached_link:
  "delete_cached_url code r = (res, r') \<Longrightarrow> no_cached_link r \<Longrightarrow> no_cached_link r'"
  unfolding no_cached_link_def
proof (intro allI)
  fix code'
  assume d: "delete_cached_url code r = (res, r')" and n: "\<forall>code. store r (generate_url_key code) = None"
  show "store r' (generate_url_key code') = None"
    using d n
    by (auto simp: delete_cached_url_def delete_key_def command_def split: list.splits bool.splits)
qed

lemma is_active_set_expiration [simp]: "is_active (set_expiration days now u) = is_active u"
  by (simp add: set_expiration_def split: option.splits)

lemma url_id_set_expiration [simp]: "url_id (set_expiration days now u) = url_id u"
  by (simp add: set_expiration_def split: option.splits)

lemma update_url_invariant:
  assumes "update_url code update_data now w = (res, w')" and "invariant w"
  shows "invariant w'"
proof -
  obtain x r2 where d: "delete_cached_url code (cache w) = (x, r2)"
    by (cases "delete_cached_url code (cache w)")
  have r2: "no_cached_link r2"
    using delete_cached_url_no_cached_link [OF d] assms(2) by (simp add: invariant_def)
  show ?thesis
    using assms d r2
    by (auto simp: update_url_def and_then_def global_db_def raise_def return_def save_def
          in_cache_def result_truthy_def invariant_def all_active_def Let_def
          dest!: scalar_row_in split: sum.splits option.splits prod.splits if_splits)
qed

lemma delete_url_invariant:
  assumes "delete_url code w = (res, w')" and "invariant w"
  shows "invariant w'"
proof -
  obtain x r2 where d: "delete_cached_url code (cache w) = (x, r2)"
    by (cases "delete_cached_url code (cache w)")
  have r2: "no_cached_link r2"
    using delete_cached_url_no_cached_link [OF d] assms(2) by (simp add: invariant_def)
  show ?thesis
    using assms d r2
    by (auto simp: delete_url_def and_then_def raise_def return_def db_delete_def
          in_cache_def result_truthy_def invariant_def all_active_def Let_def
          dest!: scalar_row_in split: sum.splits option.splits prod.splits if_splits)
qed

lemma reachable_invariant: "reachable w \<Longrightarrow> invariant w"
proof (induction rule: reachable.induct)
  case (start t fs)
  then show ?case by (simp add: invariant_def all_active_def no_cached_link_def)
next
  case (backend w t fs)
  then show ?case by (simp add: invariant_def no_cached_link_def)
next
  case (create w validators_url rnd url_data ip now out)
  obtain res w' where out: "out = (res, w')" by (cases out)
  show ?case
    by (rule db_dependency_invariant [OF create.IH])
       (use create.hyps(2) create.IH out in \<open>auto dest: create_short_url_invariant\<close>)
next
  case (create_pending w validators_url rnd url_data ip now)
  then show ?case
    by (metis create_checks_invariant prod.collapse)
next
  case (redirect w code ip ua now)
  then show ?case
    by (auto intro: db_dependency_invariant get_original_url_invariant)
next
  case (update w code update_data now)
  then show ?case
    by (auto intro: db_dependency_invariant update_url_invariant)
next
  case (delete w code)
  then show ?case
    by (auto intro: db_dependency_invariant delete_url_invariant)
qed

lemma get_cached_url_miss:
  assumes "store r (generate_url_key code) = None"
  shows "fst (get_cached_url code r) = Inl ConnectionError \<or> fst (get_cached_url code r) = Inr PNone"
  using assms
  by (auto simp: get_cached_url_def get_key_def command_def lookup_def and_then_def return_def Let_def
        split: list.splits bool.splits)

lemma resolve_url_miss:
  assumes "invariant w" and "resolve_url code w = (Inr (a, b, c), w')"
  shows "b = PBool True \<and> (c = PNone \<or> (\<exists>d. c = PDatetime d))"
proof -
  have n: "store (cache w) (generate_url_key code) = None"
    using assms(1) by (simp add: invariant_def no_cached_link_def)
  obtain x r1 where g: "get_cached_url code (cache w) = (x, r1)"
    by (cases "get_cached_url code (cache w)")
  have x: "x = Inl ConnectionError \<or> x = Inr PNone"
    using get_cached_url_miss [OF n] g by simp
  show ?thesis
    using assms x g
    by (auto simp: resolve_url_def and_then_def in_cache_def select_short_code_def raise_def
          return_def cache_url_eq invariant_def all_active_def
          dest!: scalar_row_in split: sum.splits option.splits prod.splits if_splits)
qed

lemma check_valid_active:
  assumes "c = PNone \<or> (\<exists>d. c = PDatetime d)"
  shows "check_valid (PBool True) c now \<noteq> Inl (HTTPException 410 ''URL has been deactivated'')"
  using assms
  by (auto simp: check_valid_def datetime_less_def Let_def split: option.splits bool.splits if_splits)

text \<open>
  Claim C10. In every state that the operations of the service lead to, every link of
  the table is active: a creation inserts an active link, an update writes the alias and
  the expiry and nothing else, a redirect writes the click counter, and no operation
  writes \<open>is_active\<close>. In such a state no redirect ends with the error 410 of a
  deactivated link, whatever short code is asked for.
\<close>

theorem links_stay_active:
  assumes "reachable w"
  shows "(\<forall>u \<in> set (urls (db w)). is_active u)
       \<and> fst (get_original_url code ip ua now w) \<noteq> Inl (HTTPException 410 ''URL has been deactivated'')"
proof -
  have inv: "invariant w"
    using assms by (rule reachable_invariant)
  obtain x w1 where r: "resolve_url code w = (x, w1)"
    by (cases "resolve_url code w")
  have "fst (get_original_url code ip ua now w) \<noteq> Inl (HTTPException 410 ''URL has been deactivated'')"
  proof (cases x)
    case (Inl e)
    have "e \<noteq> HTTPException 410 ''URL has been deactivated''"
    proof -
      have n: "store (cache w) (generate_url_key code) = None"
        using inv by (simp add: invariant_def no_cached_link_def)
      obtain y r1 where g: "get_cached_url code (cache w) = (y, r1)"
        by (cases "get_cached_url code (cache w)")
      have "y = Inl ConnectionError \<or> y = Inr PNone"
        using get_cached_url_miss [OF n] g by simp
      then show ?thesis
        using r Inl g
        by (auto simp: resolve_url_def and_then_def in_cache_def select_short_code_def raise_def
              return_def cache_url_eq scalar_one_or_none_def json_dumps_def
              split: sum.splits option.splits prod.splits if_splits list.splits)
    qed
    then show ?thesis
      using r Inl by (simp add: get_original_url_def and_then_def)
  next
    case (Inr t)
    obtain a b c where t: "t = (a, b, c)" by (cases t)
    have bc: "b = PBool True \<and> (c = PNone \<or> (\<exists>d. c = PDatetime d))"
      using resolve_url_miss [OF inv] r Inr t by simp
    have v: "check_valid b c now \<noteq> Inl (HTTPException 410 ''URL has been deactivated'')"
      using bc check_valid_active by blast
    have k: "fst (track_click code ip ua now w1) \<noteq> Inl (HTTPException 410 ''URL has been deactivated'')"
      using track_click_error [of code ip ua now w1]
      by (cases "track_click code ip ua now w1") auto
    show ?thesis
      using r Inr t v k
      by (auto simp: get_original_url_def and_then_def lift_def return_def
            split: sum.splits prod.splits)
  qed
  then show ?thesis
    using inv by (simp add: invariant_def all_active_def)
qed

lemma create_promo1:
  "create_short_url (\<lambda>url. True) (\<lambda>n. 0)
     \<lparr>create_original_url = ''https://example.com/page'', create_custom_alias = Some ''promo1'',
      create_expiration_days = Some 30\<rparr> ''203.0.113.7'' 1700000000000000
     \<lparr>db = \<lparr>urls = [], click_rows = []\<rparr>,
      cache = \<lparr>store = Map.empty, clock = 1700000000, faults = []\<rparr>\<rparr>
   = Some (Inr promo1, launched)"
  by (simp add: create_short_url_def create_checks_def create_store_def check_rate_limit_def
        check_rate_limit_body_def rate_limit_key_def rate_limiter_def try_except_def
        zremrangebyscore_def zcard_def zadd_def expire_def command_def zset_of_def put_zset_def
        lookup_def and_then_def return_def raise_def in_cache_def str_truthy_def
        execute_select_def scalar_one_or_none_def set_expiration_def usec_per_day_def
        add_and_flush_def next_id_def cache_url_eq json_dumps_def
        str_int_def str_nat.simps digit_char_def promo1_def launched_def Let_def)

theorem links_stay_active_witness:
  "reachable launched
   \<and> map short_code (urls (db launched)) = [''promo1'']
   \<and> map is_active (urls (db launched)) = [True]
   \<and> fst (get_original_url ''promo1'' ''198.51.100.4'' None 1700000000000000 launched)
       \<noteq> Inl (HTTPException 410 ''URL has been deactivated'')"
proof -
  have r: "reachable launched"
    using reachable.create [OF reachable.start create_promo1]
    by (simp add: db_dependency_def)
  show ?thesis
    using links_stay_active [OF r, of "''promo1''" "''198.51.100.4''" None 1700000000000000] r
    by (simp add: launched_def promo1_def)
qed

subsection \<open>Every redirect is recorded\<close>





end
